theory Spec2Isabelle
  imports Complex_Main
begin

section \<open>Data model of the timers screen\<close>

text \<open>
  The screen keeps an ordered array of \<open>Timer\<close> objects. A JavaScript \<open>number\<close>
  that this code can hold is either \<open>NaN\<close> (what \<open>parseInt\<close> returns for text with
  no leading digits) or an integer: every number in a timer comes from
  \<open>parseInt\<close>, from the literal \<open>0\<close>, or from subtracting \<open>1\<close>. Integers are
  kept unbounded here; a double represents them exactly up to \<open>2 ^ 53\<close>.
\<close>

datatype number = NaN | Num int

text \<open>\<open>x - 1\<close>: arithmetic on \<open>NaN\<close> gives \<open>NaN\<close>.\<close>

fun num_minus :: "number \<Rightarrow> number \<Rightarrow> number" where
  "num_minus (Num a) (Num b) = Num (a - b)"
| "num_minus _ _ = NaN"

text \<open>\<open>x <= y\<close>: every comparison with \<open>NaN\<close> is false.\<close>

fun num_le :: "number \<Rightarrow> number \<Rightarrow> bool" where
  "num_le (Num a) (Num b) = (a \<le> b)"
| "num_le _ _ = False"

text \<open>\<open>x <= d / 2\<close>: the division is fractional, so the half of an odd duration
  lies between two integers.\<close>

fun num_le_half :: "number \<Rightarrow> number \<Rightarrow> bool" where
  "num_le_half (Num a) (Num d) = (real_of_int a \<le> real_of_int d / 2)"
| "num_le_half _ _ = False"

datatype status = Idle | Running | Paused | Completed

text \<open>
  The field \<open>halfwayAlertTriggered\<close> is optional in the source type
  (\<open>halfwayAlertTriggered?: boolean\<close>): \<open>None\<close> is an absent field, which reads as
  \<open>undefined\<close>. The field \<open>id\<close> is named \<open>timer_id\<close> here.
\<close>

record Timer =
  timer_id :: string
  name :: string
  duration :: number
  remainingTime :: number
  category :: string
  status :: status
  halfwayAlert :: bool
  halfwayAlertTriggered :: "bool option"

text \<open>The truth value JavaScript gives to an optional boolean: \<open>!undefined\<close> is true.\<close>

fun truthy :: "bool option \<Rightarrow> bool" where
  "truthy None = False"
| "truthy (Some b) = b"

text \<open>
  What a tick sends out. \<open>handleTimerComplete\<close> builds a history entry from the
  timer's id, name and category (and the wall clock, which is left out) and shows the
  completion alert; the halfway alert names the timer.
\<close>

datatype event = CompletionEvent string string string | HalfwayAlert string

definition handleTimerComplete :: "Timer \<Rightarrow> event" where
  "handleTimerComplete timer = CompletionEvent (timer_id timer) (name timer) (category timer)"

section \<open>The tick\<close>

text \<open>
  The body of the \<open>map\<close> callback the interval runs once a second, for one timer:
  the new timer object and the events sent while computing it.
\<close>

definition tickTimer :: "Timer \<Rightarrow> Timer \<times> event list" where
  "tickTimer timer =
     (if status timer \<noteq> Running then (timer, [])
      else
        let newRemainingTime = num_minus (remainingTime timer) (Num 1) in
        if num_le newRemainingTime (Num 0)
        then (timer\<lparr>remainingTime := Num 0, status := Completed\<rparr>,
              [handleTimerComplete timer])
        else if halfwayAlert timer
                \<and> \<not> truthy (halfwayAlertTriggered timer)
                \<and> num_le_half newRemainingTime (duration timer)
        then (timer\<lparr>remainingTime := newRemainingTime, halfwayAlertTriggered := Some True\<rparr>,
              [HalfwayAlert (name timer)])
        else (timer\<lparr>remainingTime := newRemainingTime\<rparr>, []))"

text \<open>The whole tick: the callback mapped over the array, events in array order.\<close>

definition tick :: "Timer list \<Rightarrow> Timer list \<times> event list" where
  "tick currentTimers =
     (map (\<lambda>timer. fst (tickTimer timer)) currentTimers,
      concat (map (\<lambda>timer. snd (tickTimer timer)) currentTimers))"

section \<open>Actions\<close>

datatype action = Start | Pause | Reset

text \<open>
  \<open>handleTimerAction\<close> and \<open>handleCategoryAction\<close> map the same \<open>switch\<close> over
  the array; they differ in the test that selects the timers. The \<open>default\<close> branch
  of the \<open>switch\<close> cannot be reached: the action type has three values. The new
  array is what \<open>setTimers\<close> and \<open>saveTimers\<close> receive.
\<close>

definition handleTimerAction :: "string \<Rightarrow> action \<Rightarrow> Timer list \<Rightarrow> Timer list" where
  "handleTimerAction timerId act timers =
     map (\<lambda>timer.
            if timer_id timer \<noteq> timerId then timer
            else (case act of
                    Start \<Rightarrow> timer\<lparr>status := Running\<rparr>
                  | Pause \<Rightarrow> timer\<lparr>status := Paused\<rparr>
                  | Reset \<Rightarrow> timer\<lparr>remainingTime := duration timer, status := Idle,
                                  halfwayAlertTriggered := Some False\<rparr>))
         timers"

definition handleCategoryAction :: "string \<Rightarrow> action \<Rightarrow> Timer list \<Rightarrow> Timer list" where
  "handleCategoryAction cat act timers =
     map (\<lambda>timer.
            if category timer \<noteq> cat then timer
            else (case act of
                    Start \<Rightarrow> timer\<lparr>status := Running\<rparr>
                  | Pause \<Rightarrow> timer\<lparr>status := Paused\<rparr>
                  | Reset \<Rightarrow> timer\<lparr>remainingTime := duration timer, status := Idle,
                                  halfwayAlertTriggered := Some False\<rparr>))
         timers"

text \<open>
  The action table as the specification words it, to compare the two handlers with:
  start sets the status to running, pause sets it to paused, reset restores the
  remaining time to the duration, the status to idle and the latch to false.
\<close>

fun actionTable :: "action \<Rightarrow> Timer \<Rightarrow> Timer" where
  "actionTable Start timer = timer\<lparr>status := Running\<rparr>"
| "actionTable Pause timer = timer\<lparr>status := Paused\<rparr>"
| "actionTable Reset timer =
     timer\<lparr>remainingTime := duration timer, status := Idle, halfwayAlertTriggered := Some False\<rparr>"

section \<open>Creating a timer\<close>

text \<open>
  \<open>parseInt(s, 10)\<close> of the JavaScript standard library: leading white space is
  skipped, one sign is read, then the longest run of decimal digits; with no digit the
  result is \<open>NaN\<close>, and whatever follows the digits is ignored. Only the ASCII white
  space characters are modelled.
\<close>

definition isWhiteSpace :: "char \<Rightarrow> bool" where
  "isWhiteSpace c = (c \<in> set [CHR '' '', CHR 0x09, CHR 0x0A, CHR 0x0B, CHR 0x0C, CHR 0x0D])"

definition isDigit :: "char \<Rightarrow> bool" where
  "isDigit c = (c \<in> set ''0123456789'')"

definition digitValue :: "char \<Rightarrow> nat" where
  "digitValue c = of_char c - (48::nat)"

fun digitsValue :: "nat \<Rightarrow> string \<Rightarrow> nat" where
  "digitsValue acc [] = acc"
| "digitsValue acc (c # cs) = digitsValue (10 * acc + digitValue c) cs"

definition parseInt10 :: "string \<Rightarrow> number" where
  "parseInt10 s =
     (let s1 = dropWhile isWhiteSpace s;
          negative = (case s1 of c # _ \<Rightarrow> c = CHR ''-'' | [] \<Rightarrow> False);
          s2 = (case s1 of c # cs \<Rightarrow> if c = CHR ''-'' \<or> c = CHR ''+'' then cs else s1 | [] \<Rightarrow> s1);
          digits = takeWhile isDigit s2
      in if digits = [] then NaN
         else Num ((if negative then - 1 else 1) * int (digitsValue 0 digits)))"

text \<open>
  The form behind the "Add Timer" dialog (the state \<open>newTimer\<close>; its fields are
  \<open>name\<close>, \<open>duration\<close>, \<open>category\<close> and \<open>halfwayAlert\<close> in the source, the
  first three being the text of the input boxes) and the part of the component state
  that \<open>handleAddTimer\<close> reads and writes.
\<close>

record NewTimer =
  newName :: string
  newDuration :: string
  newCategory :: string
  newHalfwayAlert :: bool

record AppState =
  timers :: "Timer list"
  modalVisible :: bool
  newTimer :: NewTimer

definition emptyNewTimer :: NewTimer where
  "emptyNewTimer = \<lparr>newName = [], newDuration = [], newCategory = [], newHalfwayAlert = False\<rparr>"

text \<open>
  The early return of \<open>handleAddTimer\<close>, taken after the alert
  \<open>'Please fill in all fields'\<close>, is the error value. \<open>!s\<close> on a string is true for
  the empty string only. \<open>now\<close> stands for \<open>Date.now().toString()\<close>. The object
  literal has no \<open>halfwayAlertTriggered\<close> key.
\<close>

datatype error = ValidationError

definition handleAddTimer :: "string \<Rightarrow> AppState \<Rightarrow> error option \<times> AppState" where
  "handleAddTimer now st =
     (if newName (newTimer st) = [] \<or> newDuration (newTimer st) = []
         \<or> newCategory (newTimer st) = []
      then (Some ValidationError, st)
      else
        let d = parseInt10 (newDuration (newTimer st));
            timer = \<lparr>timer_id = now,
                     name = newName (newTimer st),
                     duration = d,
                     remainingTime = d,
                     category = newCategory (newTimer st),
                     status = Idle,
                     halfwayAlert = newHalfwayAlert (newTimer st),
                     halfwayAlertTriggered = None\<rparr>;
            updatedTimers = timers st @ [timer]
        in (None, st\<lparr>timers := updatedTimers, modalVisible := False,
                      newTimer := emptyNewTimer\<rparr>))"

section \<open>Runs\<close>

text \<open>
  What can happen to the array between two renders: a tick, or one of the two action
  handlers. A run applies the steps in order and collects the events.
\<close>

datatype step = TickStep | TimerAction string action | CategoryAction string action

fun applyStep :: "step \<Rightarrow> Timer list \<Rightarrow> Timer list \<times> event list" where
  "applyStep TickStep ts = tick ts"
| "applyStep (TimerAction timerId act) ts = (handleTimerAction timerId act ts, [])"
| "applyStep (CategoryAction cat act) ts = (handleCategoryAction cat act ts, [])"

fun run :: "step list \<Rightarrow> Timer list \<Rightarrow> Timer list \<times> event list" where
  "run [] ts = (ts, [])"
| "run (s # ss) ts =
     (let (ts1, es1) = applyStep s ts; (ts2, es2) = run ss ts1 in (ts2, es1 @ es2))"

text \<open>
  The same for one timer: in each step the timer is ticked, or an action reaches it
  (its id or its category was the target), or the step passes it by.
\<close>

datatype stimulus = Ticked | Acted action | Skipped

fun stepTimer :: "stimulus \<Rightarrow> Timer \<Rightarrow> Timer \<times> event list" where
  "stepTimer Ticked timer = tickTimer timer"
| "stepTimer (Acted act) timer = (actionTable act timer, [])"
| "stepTimer Skipped timer = (timer, [])"

fun runTimer :: "stimulus list \<Rightarrow> Timer \<Rightarrow> Timer \<times> event list" where
  "runTimer [] timer = (timer, [])"
| "runTimer (s # ss) timer =
     (let (t1, es1) = stepTimer s timer; (t2, es2) = runTimer ss t1 in (t2, es1 @ es2))"

text \<open>The stimulus a step of the whole array gives to one of its timers.\<close>

fun stimulusOf :: "step \<Rightarrow> Timer \<Rightarrow> stimulus" where
  "stimulusOf TickStep timer = Ticked"
| "stimulusOf (TimerAction timerId act) timer =
     (if timer_id timer = timerId then Acted act else Skipped)"
| "stimulusOf (CategoryAction cat act) timer =
     (if category timer = cat then Acted act else Skipped)"

section \<open>Predicates of the claims\<close>

text \<open>A timer with an integer duration above zero and a remaining time within it.\<close>

definition wellFormed :: "Timer \<Rightarrow> bool" where
  "wellFormed timer =
     (case duration timer of
        NaN \<Rightarrow> False
      | Num d \<Rightarrow> (case remainingTime timer of
                    NaN \<Rightarrow> False
                  | Num r \<Rightarrow> 0 < d \<and> 0 \<le> r \<and> r \<le> d))"

fun isCompletion :: "event \<Rightarrow> bool" where
  "isCompletion (CompletionEvent _ _ _) = True"
| "isCompletion (HalfwayAlert _) = False"

fun isHalfway :: "event \<Rightarrow> bool" where
  "isHalfway (HalfwayAlert _) = True"
| "isHalfway (CompletionEvent _ _ _) = False"

section \<open>Buttons\<close>

text \<open>
  The per-timer buttons carry a \<open>disabled\<close> flag: the start button is disabled
  while the timer is running or completed, the pause button unless it is running. The
  reset button and the three buttons of a category header are always enabled.
\<close>

definition startDisabled :: "Timer \<Rightarrow> bool" where
  "startDisabled timer = (status timer = Running \<or> status timer = Completed)"

definition pauseDisabled :: "Timer \<Rightarrow> bool" where
  "pauseDisabled timer = (status timer \<noteq> Running)"

section \<open>Example snapshots\<close>

text \<open>
  A timer with the halfway alert enabled and the latch still absent, given by id,
  name, category, duration, remaining time and status; and the component state with
  no timers and the dialog filled in with a name, a duration text and a category.
\<close>

definition exampleTimer :: "string \<Rightarrow> string \<Rightarrow> string \<Rightarrow> int \<Rightarrow> int \<Rightarrow> status \<Rightarrow> Timer" where
  "exampleTimer i n c d r s =
     \<lparr>timer_id = i, name = n, duration = Num d, remainingTime = Num r, category = c,
      status = s, halfwayAlert = True, halfwayAlertTriggered = None\<rparr>"

definition exampleForm :: "string \<Rightarrow> string \<Rightarrow> string \<Rightarrow> AppState" where
  "exampleForm n d c =
     \<lparr>timers = [], modalVisible = True,
      newTimer = \<lparr>newName = n, newDuration = d, newCategory = c, newHalfwayAlert = False\<rparr>\<rparr>"

section \<open>The handlers act timer by timer\<close>

lemmas parse_simps = parseInt10_def isWhiteSpace_def isDigit_def digitValue_def Let_def

lemma handleTimerAction_nth:
  "i < length ts \<Longrightarrow>
   handleTimerAction tid act ts ! i =
     (if timer_id (ts ! i) = tid then actionTable act (ts ! i) else ts ! i)"
  by (cases act) (simp_all add: handleTimerAction_def)

lemma handleCategoryAction_nth:
  "i < length ts \<Longrightarrow>
   handleCategoryAction cat act ts ! i =
     (if category (ts ! i) = cat then actionTable act (ts ! i) else ts ! i)"
  by (cases act) (simp_all add: handleCategoryAction_def)

lemma length_handleTimerAction: "length (handleTimerAction tid act ts) = length ts"
  by (simp add: handleTimerAction_def)

lemma length_handleCategoryAction: "length (handleCategoryAction cat act ts) = length ts"
  by (simp add: handleCategoryAction_def)

lemma length_tick: "length (fst (tick ts)) = length ts"
  by (simp add: tick_def)

lemma tick_nth: "i < length ts \<Longrightarrow> fst (tick ts) ! i = fst (tickTimer (ts ! i))"
  by (simp add: tick_def)

lemma actionTable_keeps_identity:
  "timer_id (actionTable act t) = timer_id t \<and> category (actionTable act t) = category t
   \<and> name (actionTable act t) = name t \<and> duration (actionTable act t) = duration t
   \<and> halfwayAlert (actionTable act t) = halfwayAlert t"
  by (cases act) simp_all

lemma tickTimer_keeps_identity:
  "timer_id (fst (tickTimer t)) = timer_id t \<and> category (fst (tickTimer t)) = category t
   \<and> name (fst (tickTimer t)) = name t \<and> duration (fst (tickTimer t)) = duration t
   \<and> halfwayAlert (fst (tickTimer t)) = halfwayAlert t"
  by (simp add: tickTimer_def Let_def)

lemma stepTimer_keeps_identity:
  "timer_id (fst (stepTimer s t)) = timer_id t \<and> category (fst (stepTimer s t)) = category t
   \<and> duration (fst (stepTimer s t)) = duration t
   \<and> halfwayAlert (fst (stepTimer s t)) = halfwayAlert t"
  by (cases s) (simp_all add: actionTable_keeps_identity tickTimer_keeps_identity)

lemma stimulusOf_stepTimer: "stimulusOf s (fst (stepTimer x t)) = stimulusOf s t"
  by (cases s) (simp_all add: stepTimer_keeps_identity)

lemma applyStep_nth:
  "i < length ts \<Longrightarrow> fst (applyStep s ts) ! i = fst (stepTimer (stimulusOf s (ts ! i)) (ts ! i))"
  by (cases s) (simp_all add: tick_nth handleTimerAction_nth handleCategoryAction_nth)

lemma length_applyStep: "length (fst (applyStep s ts)) = length ts"
  by (cases s) (simp_all add: length_tick length_handleTimerAction length_handleCategoryAction)

lemma length_run: "length (fst (run ss ts)) = length ts"
  by (induction ss arbitrary: ts) (simp_all add: split_beta length_applyStep)

lemma run_nth:
  "i < length ts \<Longrightarrow>
   fst (run ss ts) ! i = fst (runTimer (map (\<lambda>s. stimulusOf s (ts ! i)) ss) (ts ! i))"
proof (induction ss arbitrary: ts)
  case Nil
  then show ?case by simp
next
  case (Cons s ss)
  have len: "i < length (fst (applyStep s ts))"
    using Cons.prems by (simp add: length_applyStep)
  show ?case
    using Cons.IH [OF len] Cons.prems
    by (simp add: split_beta applyStep_nth stimulusOf_stepTimer)
qed

lemma tick_events_mem:
  "i < length ts \<Longrightarrow> e \<in> set (snd (tickTimer (ts ! i))) \<Longrightarrow> e \<in> set (snd (tick ts))"
  by (auto simp: tick_def)

text \<open>
  \<open>run_nth\<close> is why one timer can be followed on its own: inside any run of the whole
  array, the timer at a position goes through the run of its own stimuli. For an array
  of one timer the events agree as well.
\<close>

lemma applyStep_single:
  "applyStep s [t] = ([fst (stepTimer (stimulusOf s t) t)], snd (stepTimer (stimulusOf s t) t))"
proof (cases s)
  case TickStep
  then show ?thesis by (simp add: tick_def)
next
  case (TimerAction tid act)
  then show ?thesis by (cases act) (simp_all add: handleTimerAction_def)
next
  case (CategoryAction cat act)
  then show ?thesis by (cases act) (simp_all add: handleCategoryAction_def)
qed

lemma run_single:
  "run ss [t] =
     ([fst (runTimer (map (\<lambda>s. stimulusOf s t) ss) t)],
      snd (runTimer (map (\<lambda>s. stimulusOf s t) ss) t))"
proof (induction ss arbitrary: t)
  case Nil
  show ?case by simp
next
  case (Cons s ss)
  show ?case
    by (simp add: applyStep_single Cons.IH split_beta stimulusOf_stepTimer)
qed


section \<open>Invariant and latch lemmas\<close>

lemma wellFormed_actionTable: "wellFormed t \<Longrightarrow> wellFormed (actionTable act t)"
  by (cases act) (auto simp: wellFormed_def split: number.splits)

lemma wellFormed_tickTimer: "wellFormed t \<Longrightarrow> wellFormed (fst (tickTimer t))"
  by (auto simp: wellFormed_def tickTimer_def Let_def split: number.splits)

lemma wellFormed_stepTimer: "wellFormed t \<Longrightarrow> wellFormed (fst (stepTimer s t))"
  by (cases s) (simp_all add: wellFormed_actionTable wellFormed_tickTimer)

lemma wellFormed_runTimer: "wellFormed t \<Longrightarrow> wellFormed (fst (runTimer ss t))"
  by (induction ss arbitrary: t) (simp_all add: split_beta wellFormed_stepTimer)

lemma created_wellFormed:
  "fst (handleAddTimer now st) = None \<Longrightarrow> parseInt10 (newDuration (newTimer st)) = Num d \<Longrightarrow>
   0 < d \<Longrightarrow> wellFormed (last (timers (snd (handleAddTimer now st))))"
  by (simp add: handleAddTimer_def Let_def wellFormed_def split: if_splits)

lemma tickTimer_latch_monotone:
  "truthy (halfwayAlertTriggered t) \<Longrightarrow> truthy (halfwayAlertTriggered (fst (tickTimer t)))"
  by (simp add: tickTimer_def Let_def)

lemma tickTimer_no_alert_when_triggered:
  "truthy (halfwayAlertTriggered t) \<Longrightarrow> filter isHalfway (snd (tickTimer t)) = []"
  by (simp add: tickTimer_def Let_def handleTimerComplete_def)

lemma tickTimer_alert_sets_latch:
  "filter isHalfway (snd (tickTimer t)) \<noteq> [] \<Longrightarrow> truthy (halfwayAlertTriggered (fst (tickTimer t)))"
  by (simp add: tickTimer_def Let_def handleTimerComplete_def split: if_splits)

lemma tickTimer_alert_count: "length (filter isHalfway (snd (tickTimer t))) \<le> 1"
  by (simp add: tickTimer_def Let_def handleTimerComplete_def)

lemma stepTimer_latch_monotone:
  "s \<noteq> Acted Reset \<Longrightarrow> truthy (halfwayAlertTriggered t) \<Longrightarrow>
   truthy (halfwayAlertTriggered (fst (stepTimer s t)))"
proof (cases s)
  case Ticked
  assume "truthy (halfwayAlertTriggered t)"
  with Ticked show ?thesis by (simp add: tickTimer_latch_monotone)
next
  case (Acted act)
  assume "s \<noteq> Acted Reset" and "truthy (halfwayAlertTriggered t)"
  with Acted show ?thesis by (cases act) simp_all
next
  case Skipped
  assume "truthy (halfwayAlertTriggered t)"
  with Skipped show ?thesis by simp
qed

lemma stepTimer_alerts:
  "length (filter isHalfway (snd (stepTimer s t))) \<le> (if truthy (halfwayAlertTriggered t) then 0 else 1)"
  using tickTimer_alert_count [of t]
  by (cases s) (simp_all add: tickTimer_no_alert_when_triggered)

lemma stepTimer_alert_sets_latch:
  "filter isHalfway (snd (stepTimer s t)) \<noteq> [] \<Longrightarrow> truthy (halfwayAlertTriggered (fst (stepTimer s t)))"
  by (cases s) (simp_all add: tickTimer_alert_sets_latch)

lemma runTimer_alerts:
  "Acted Reset \<notin> set ss \<Longrightarrow>
   length (filter isHalfway (snd (runTimer ss t))) \<le> (if truthy (halfwayAlertTriggered t) then 0 else 1)"
proof (induction ss arbitrary: t)
  case Nil
  then show ?case by simp
next
  case (Cons s ss)
  let ?t1 = "fst (stepTimer s t)"
  let ?a = "filter isHalfway (snd (stepTimer s t))"
  let ?b = "filter isHalfway (snd (runTimer ss ?t1))"
  have ne: "s \<noteq> Acted Reset" and rest: "Acted Reset \<notin> set ss"
    using Cons.prems by auto
  have ih: "length ?b \<le> (if truthy (halfwayAlertTriggered ?t1) then 0 else 1)"
    using Cons.IH [OF rest] .
  have split: "filter isHalfway (snd (runTimer (s # ss) t)) = ?a @ ?b"
    by (simp add: split_beta)
  show ?case
  proof (cases "truthy (halfwayAlertTriggered t)")
    case True
    have "?a = []" using stepTimer_alerts [of s t] True by simp
    moreover have "?b = []"
      using ih stepTimer_latch_monotone [OF ne True] by simp
    ultimately show ?thesis using True split by simp
  next
    case False
    show ?thesis
    proof (cases "?a = []")
      case True
      have "length ?b \<le> 1" using ih by (simp split: if_splits)
      then show ?thesis using True False split by simp
    next
      case nonempty: False
      have "?b = []"
        using ih stepTimer_alert_sets_latch [OF nonempty] by simp
      then show ?thesis using stepTimer_alerts [of s t] False split by simp
    qed
  qed
qed

lemma runTimer_latch_monotone:
  "Acted Reset \<notin> set ss \<Longrightarrow> truthy (halfwayAlertTriggered t) \<Longrightarrow>
   truthy (halfwayAlertTriggered (fst (runTimer ss t)))"
  by (induction ss arbitrary: t) (auto simp: split_beta stepTimer_latch_monotone)

lemma latch_set_only_by_tick:
  "\<not> truthy (halfwayAlertTriggered t) \<Longrightarrow> truthy (halfwayAlertTriggered (fst (stepTimer s t))) \<Longrightarrow>
   s = Ticked \<and> halfwayAlert t \<and> status t = Running
   \<and> num_le_half (remainingTime (fst (stepTimer s t))) (duration t)
   \<and> remainingTime (fst (stepTimer s t)) = num_minus (remainingTime t) (Num 1)"
proof (cases s)
  case Ticked
  assume "\<not> truthy (halfwayAlertTriggered t)" "truthy (halfwayAlertTriggered (fst (stepTimer s t)))"
  with Ticked show ?thesis
    by (simp add: tickTimer_def Let_def split: if_splits)
next
  case (Acted act)
  assume "\<not> truthy (halfwayAlertTriggered t)" "truthy (halfwayAlertTriggered (fst (stepTimer s t)))"
  with Acted show ?thesis by (cases act) simp_all
next
  case Skipped
  assume "\<not> truthy (halfwayAlertTriggered t)" "truthy (halfwayAlertTriggered (fst (stepTimer s t)))"
  with Skipped show ?thesis by simp
qed

lemma alert_iff_latch_set:
  "list_ex isHalfway (snd (stepTimer s t)) =
     (\<not> truthy (halfwayAlertTriggered t) \<and> truthy (halfwayAlertTriggered (fst (stepTimer s t))))"
proof (cases s)
  case Ticked
  then show ?thesis
    by (auto simp: tickTimer_def Let_def handleTimerComplete_def)
next
  case (Acted act)
  then show ?thesis by (cases act) auto
next
  case Skipped
  then show ?thesis by simp
qed

lemma category_kept: "map category (handleCategoryAction cat act ts) = map category ts"
  by (cases act) (simp_all add: handleCategoryAction_def)

lemma members_kept:
  "length (filter (\<lambda>t. category t = cat) (handleCategoryAction cat act ts))
        = length (filter (\<lambda>t. category t = cat) ts)"
proof -
  have "filter (\<lambda>c. c = cat) (map category (handleCategoryAction cat act ts))
        = filter (\<lambda>c. c = cat) (map category ts)"
    by (simp only: category_kept)
  then have "map category (filter (\<lambda>t. category t = cat) (handleCategoryAction cat act ts))
        = map category (filter (\<lambda>t. category t = cat) ts)"
    by (simp only: filter_map comp_def)
  then show ?thesis by (rule map_eq_imp_length_eq)
qed

lemma started: "t \<in> set (filter (\<lambda>t. category t = cat) (handleCategoryAction cat Start ts)) \<Longrightarrow>
        status t = Running"
proof -
  assume "t \<in> set (filter (\<lambda>t. category t = cat) (handleCategoryAction cat Start ts))"
  then have mem: "t \<in> set (handleCategoryAction cat Start ts)" and c: "category t = cat"
    by simp_all
  from mem obtain i where i: "i < length ts" and t: "t = handleCategoryAction cat Start ts ! i"
    by (auto simp: in_set_conv_nth length_handleCategoryAction)
  have eq: "t = (if category (ts ! i) = cat then actionTable Start (ts ! i) else ts ! i)"
    using i t by (simp only: handleCategoryAction_nth)
  show ?thesis
  proof (cases "category (ts ! i) = cat")
    case True
    with eq show ?thesis by simp
  next
    case False
    with eq c show ?thesis by simp
  qed
qed

section \<open>The claims\<close>

text \<open>
  C1. In every tick, a timer at any position of the array whose status is running gets
  \<open>newRemaining = remainingTime - 1\<close>. If \<open>newRemaining <= 0\<close>, its remaining time
  becomes 0, its status completed, and exactly the completion event of that timer is
  sent, as part of the events of the tick. Otherwise the halfway branch applies or the
  remaining time alone becomes \<open>newRemaining\<close>. No tick of a timer sends both a
  completion event and a halfway alert.
\<close>

theorem tick_running_timer:
  assumes "i < length ts" and "status (ts ! i) = Running"
  shows "(let timer = ts ! i;
              newRemaining = num_minus (remainingTime timer) (Num 1);
              timer' = fst (tick ts) ! i;
              emitted = snd (tickTimer timer)
          in (num_le newRemaining (Num 0) \<longrightarrow>
                timer' = timer\<lparr>remainingTime := Num 0, status := Completed\<rparr>
                \<and> emitted = [handleTimerComplete timer]
                \<and> handleTimerComplete timer \<in> set (snd (tick ts)))
           \<and> (\<not> num_le newRemaining (Num 0) \<longrightarrow>
                (if halfwayAlert timer \<and> \<not> truthy (halfwayAlertTriggered timer)
                     \<and> num_le_half newRemaining (duration timer)
                 then timer' = timer\<lparr>remainingTime := newRemaining, halfwayAlertTriggered := Some True\<rparr>
                      \<and> emitted = [HalfwayAlert (name timer)]
                 else timer' = timer\<lparr>remainingTime := newRemaining\<rparr> \<and> emitted = []))
           \<and> \<not> (list_ex isCompletion emitted \<and> list_ex isHalfway emitted))"
proof -
  have nth: "fst (tick ts) ! i = fst (tickTimer (ts ! i))"
    using assms(1) by (rule tick_nth)
  have mem: "\<And>e. e \<in> set (snd (tickTimer (ts ! i))) \<Longrightarrow> e \<in> set (snd (tick ts))"
    using assms(1) by (rule tick_events_mem)
  show ?thesis
    using assms(2) mem
    by (auto simp: nth tickTimer_def Let_def handleTimerComplete_def)
qed

theorem tick_running_timer_witness:
  "fst (tick [exampleTimer ''1'' ''Egg'' ''Cooking'' 10 1 Running]) ! 0
     = exampleTimer ''1'' ''Egg'' ''Cooking'' 10 0 Completed
   \<and> snd (tickTimer (exampleTimer ''1'' ''Egg'' ''Cooking'' 10 1 Running))
     = [CompletionEvent ''1'' ''Egg'' ''Cooking'']
   \<and> fst (tick [exampleTimer ''1'' ''Egg'' ''Cooking'' 10 9 Running]) ! 0
     = exampleTimer ''1'' ''Egg'' ''Cooking'' 10 8 Running"
proof -
  have a: "fst (tick [exampleTimer ''1'' ''Egg'' ''Cooking'' 10 1 Running]) ! 0
     = exampleTimer ''1'' ''Egg'' ''Cooking'' 10 0 Completed
   \<and> snd (tickTimer (exampleTimer ''1'' ''Egg'' ''Cooking'' 10 1 Running))
     = [CompletionEvent ''1'' ''Egg'' ''Cooking'']"
    using tick_running_timer [of 0 "[exampleTimer ''1'' ''Egg'' ''Cooking'' 10 1 Running]"]
    by (simp add: exampleTimer_def Let_def handleTimerComplete_def)
  have b: "fst (tick [exampleTimer ''1'' ''Egg'' ''Cooking'' 10 9 Running]) ! 0
     = exampleTimer ''1'' ''Egg'' ''Cooking'' 10 8 Running"
    using tick_running_timer [of 0 "[exampleTimer ''1'' ''Egg'' ''Cooking'' 10 9 Running]"]
    by (simp add: exampleTimer_def Let_def)
  show ?thesis using a b by blast
qed

text \<open>
  C2. The latch \<open>halfwayAlertTriggered\<close> of a timer goes from not set to set only in a
  tick, only when the halfway alert is enabled and the timer is running, and only when
  the new remaining time is at most half the duration. A step sends a halfway alert
  exactly when it sets the latch. In a run without a reset the timer sends at most
  one halfway alert, and none once the latch is set, which then stays set. A reset
  puts the latch to false, through either handler.
\<close>

theorem halfway_latch:
  "(\<not> truthy (halfwayAlertTriggered t) \<and> truthy (halfwayAlertTriggered (fst (stepTimer s t)))
      \<longrightarrow> s = Ticked \<and> halfwayAlert t \<and> status t = Running
          \<and> remainingTime (fst (stepTimer s t)) = num_minus (remainingTime t) (Num 1)
          \<and> num_le_half (remainingTime (fst (stepTimer s t))) (duration t))
   \<and> list_ex isHalfway (snd (stepTimer s t)) =
        (\<not> truthy (halfwayAlertTriggered t) \<and> truthy (halfwayAlertTriggered (fst (stepTimer s t))))
   \<and> (Acted Reset \<notin> set ss \<longrightarrow>
        length (filter isHalfway (snd (runTimer ss t))) \<le> 1
        \<and> (truthy (halfwayAlertTriggered t) \<longrightarrow>
             truthy (halfwayAlertTriggered (fst (runTimer ss t)))
             \<and> filter isHalfway (snd (runTimer ss t)) = []))
   \<and> halfwayAlertTriggered (fst (stepTimer (Acted Reset) t)) = Some False
   \<and> (i < length ts \<and> timer_id (ts ! i) = tid \<longrightarrow>
        halfwayAlertTriggered (handleTimerAction tid Reset ts ! i) = Some False)
   \<and> (i < length ts \<and> category (ts ! i) = cat \<longrightarrow>
        halfwayAlertTriggered (handleCategoryAction cat Reset ts ! i) = Some False)"
proof -
  have a: "\<not> truthy (halfwayAlertTriggered t) \<and> truthy (halfwayAlertTriggered (fst (stepTimer s t)))
      \<longrightarrow> s = Ticked \<and> halfwayAlert t \<and> status t = Running
          \<and> remainingTime (fst (stepTimer s t)) = num_minus (remainingTime t) (Num 1)
          \<and> num_le_half (remainingTime (fst (stepTimer s t))) (duration t)"
    using latch_set_only_by_tick [of t s] by blast
  have c: "Acted Reset \<notin> set ss \<longrightarrow>
        length (filter isHalfway (snd (runTimer ss t))) \<le> 1
        \<and> (truthy (halfwayAlertTriggered t) \<longrightarrow>
             truthy (halfwayAlertTriggered (fst (runTimer ss t)))
             \<and> filter isHalfway (snd (runTimer ss t)) = [])"
  proof
    assume nr: "Acted Reset \<notin> set ss"
    have le: "length (filter isHalfway (snd (runTimer ss t)))
                \<le> (if truthy (halfwayAlertTriggered t) then 0 else 1)"
      using runTimer_alerts [OF nr] .
    have "length (filter isHalfway (snd (runTimer ss t))) \<le> 1"
      using le by (simp split: if_splits)
    moreover have "truthy (halfwayAlertTriggered t) \<longrightarrow>
             truthy (halfwayAlertTriggered (fst (runTimer ss t)))
             \<and> filter isHalfway (snd (runTimer ss t)) = []"
      using le runTimer_latch_monotone [OF nr, of t] by (simp split: if_splits)
    ultimately show "length (filter isHalfway (snd (runTimer ss t))) \<le> 1
        \<and> (truthy (halfwayAlertTriggered t) \<longrightarrow>
             truthy (halfwayAlertTriggered (fst (runTimer ss t)))
             \<and> filter isHalfway (snd (runTimer ss t)) = [])" by blast
  qed
  have d: "halfwayAlertTriggered (fst (stepTimer (Acted Reset) t)) = Some False"
    by simp
  have e: "i < length ts \<and> timer_id (ts ! i) = tid \<longrightarrow>
        halfwayAlertTriggered (handleTimerAction tid Reset ts ! i) = Some False"
    by (simp add: handleTimerAction_nth)
  have f: "i < length ts \<and> category (ts ! i) = cat \<longrightarrow>
        halfwayAlertTriggered (handleCategoryAction cat Reset ts ! i) = Some False"
    by (simp add: handleCategoryAction_nth)
  show ?thesis
    using a alert_iff_latch_set [of s t] c d e f by blast
qed

theorem halfway_latch_witness:
  "halfwayAlertTriggered (fst (stepTimer Ticked (exampleTimer ''1'' ''Egg'' ''Cooking'' 10 6 Running)))
     = Some True
   \<and> snd (stepTimer Ticked (exampleTimer ''1'' ''Egg'' ''Cooking'' 10 6 Running))
     = [HalfwayAlert ''Egg'']
   \<and> num_le_half (remainingTime
        (fst (stepTimer Ticked (exampleTimer ''1'' ''Egg'' ''Cooking'' 10 6 Running)))) (Num 10)
   \<and> length (filter isHalfway (snd (runTimer [Ticked, Acted Pause, Acted Start, Ticked, Ticked]
        (exampleTimer ''1'' ''Egg'' ''Cooking'' 10 6 Running)))) \<le> 1
   \<and> halfwayAlertTriggered (handleCategoryAction ''Cooking'' Reset
        [exampleTimer ''1'' ''Egg'' ''Cooking'' 10 6 Running] ! 0) = Some False"
proof -
  let ?t = "exampleTimer ''1'' ''Egg'' ''Cooking'' 10 6 Running"
  have pre: "\<not> truthy (halfwayAlertTriggered ?t)"
    by (simp add: exampleTimer_def)
  have post: "halfwayAlertTriggered (fst (stepTimer Ticked ?t)) = Some True"
    by (simp add: exampleTimer_def tickTimer_def Let_def)
  have ev: "snd (stepTimer Ticked ?t) = [HalfwayAlert ''Egg'']"
    by (simp add: exampleTimer_def tickTimer_def Let_def)
  have nr: "Acted Reset \<notin> set [Ticked, Acted Pause, Acted Start, Ticked, Ticked]"
    by simp
  have d: "duration ?t = Num 10" and c: "category ([?t] ! 0) = ''Cooking''"
    by (simp_all add: exampleTimer_def)
  have len: "(0::nat) < length [?t]" by simp
  note h = halfway_latch [of ?t Ticked "[Ticked, Acted Pause, Acted Start, Ticked, Ticked]"
      0 "[?t]" "''1''" "''Cooking''"]
  have post': "truthy (halfwayAlertTriggered (fst (stepTimer Ticked ?t)))"
    by (simp only: post truthy.simps)
  from h pre post' have "num_le_half (remainingTime (fst (stepTimer Ticked ?t))) (duration ?t)"
    by blast
  then have half: "num_le_half (remainingTime (fst (stepTimer Ticked ?t))) (Num 10)"
    by (simp only: d)
  from h nr have once: "length (filter isHalfway (snd (runTimer
      [Ticked, Acted Pause, Acted Start, Ticked, Ticked] ?t))) \<le> 1"
    by blast
  from h len c have reset: "halfwayAlertTriggered (handleCategoryAction ''Cooking'' Reset [?t] ! 0)
      = Some False"
    by blast
  show ?thesis using post ev half once reset by blast
qed

text \<open>
  C3. Both handlers apply the action table to every timer they target, whatever its
  status: start sets the status to running and leaves the remaining time and the latch
  as they were (also on a completed timer), pause sets the status to paused, reset sets
  the remaining time to the duration, the status to idle and the latch to false.
\<close>

theorem action_table_applied:
  assumes "i < length ts"
  shows "(timer_id (ts ! i) = tid \<longrightarrow>
            handleTimerAction tid Start ts ! i = (ts ! i)\<lparr>status := Running\<rparr>
          \<and> handleTimerAction tid Pause ts ! i = (ts ! i)\<lparr>status := Paused\<rparr>
          \<and> handleTimerAction tid Reset ts ! i =
              (ts ! i)\<lparr>remainingTime := duration (ts ! i), status := Idle,
                        halfwayAlertTriggered := Some False\<rparr>
          \<and> handleTimerAction tid act ts ! i = actionTable act (ts ! i))
       \<and> (category (ts ! i) = cat \<longrightarrow>
            handleCategoryAction cat Start ts ! i = (ts ! i)\<lparr>status := Running\<rparr>
          \<and> handleCategoryAction cat Pause ts ! i = (ts ! i)\<lparr>status := Paused\<rparr>
          \<and> handleCategoryAction cat Reset ts ! i =
              (ts ! i)\<lparr>remainingTime := duration (ts ! i), status := Idle,
                        halfwayAlertTriggered := Some False\<rparr>
          \<and> handleCategoryAction cat act ts ! i = actionTable act (ts ! i))
       \<and> status (actionTable Start (ts ! i)) = Running
       \<and> remainingTime (actionTable Start (ts ! i)) = remainingTime (ts ! i)
       \<and> halfwayAlertTriggered (actionTable Start (ts ! i)) = halfwayAlertTriggered (ts ! i)
       \<and> status (actionTable Pause (ts ! i)) = Paused
       \<and> remainingTime (actionTable Reset (ts ! i)) = duration (ts ! i)
       \<and> status (actionTable Reset (ts ! i)) = Idle
       \<and> halfwayAlertTriggered (actionTable Reset (ts ! i)) = Some False"
  using assms by (simp add: handleTimerAction_nth handleCategoryAction_nth)

theorem action_table_applied_witness:
  "handleTimerAction ''1'' Start [exampleTimer ''1'' ''Egg'' ''Cooking'' 10 0 Completed] ! 0
     = (exampleTimer ''1'' ''Egg'' ''Cooking'' 10 0 Completed)\<lparr>status := Running\<rparr>
   \<and> remainingTime (handleTimerAction ''1'' Start
        [exampleTimer ''1'' ''Egg'' ''Cooking'' 10 0 Completed] ! 0) = Num 0
   \<and> handleCategoryAction ''Cooking'' Reset [exampleTimer ''1'' ''Egg'' ''Cooking'' 10 0 Completed] ! 0
     = (exampleTimer ''1'' ''Egg'' ''Cooking'' 10 0 Completed)
         \<lparr>remainingTime := Num 10, status := Idle, halfwayAlertTriggered := Some False\<rparr>"
  using action_table_applied [of 0 "[exampleTimer ''1'' ''Egg'' ''Cooking'' 10 0 Completed]"
      "''1''" Start "''Cooking''"]
  by (simp add: exampleTimer_def)

text \<open>
  C4. A timer with an integer duration above zero and \<open>0 <= remainingTime <= duration\<close>
  keeps that bound through a tick, through any action of either handler, and so
  through every run of ticks and actions; and a timer created from a duration text that
  parses to an integer above zero starts within the bound.
\<close>

theorem remainingTime_bounds:
  assumes "i < length ts" and "wellFormed (ts ! i)"
  shows "wellFormed (fst (tick ts) ! i)
       \<and> wellFormed (handleTimerAction tid act ts ! i)
       \<and> wellFormed (handleCategoryAction cat act ts ! i)
       \<and> wellFormed (fst (run ss ts) ! i)
       \<and> length (fst (run ss ts)) = length ts
       \<and> (fst (handleAddTimer now st) = None
            \<and> parseInt10 (newDuration (newTimer st)) = Num d \<and> 0 < d \<longrightarrow>
          wellFormed (last (timers (snd (handleAddTimer now st)))))"
  using assms created_wellFormed [of now st d]
  by (simp add: tick_nth handleTimerAction_nth handleCategoryAction_nth run_nth length_run
      wellFormed_tickTimer wellFormed_actionTable wellFormed_runTimer)

theorem remainingTime_bounds_witness:
  "wellFormed ([exampleTimer ''1'' ''Egg'' ''Cooking'' 10 1 Running] ! 0)
   \<and> wellFormed (fst (tick [exampleTimer ''1'' ''Egg'' ''Cooking'' 10 1 Running]) ! 0)
   \<and> wellFormed (handleCategoryAction ''Cooking'' Reset
        [exampleTimer ''1'' ''Egg'' ''Cooking'' 10 1 Running] ! 0)
   \<and> wellFormed (fst (run [TickStep, CategoryAction ''Cooking'' Start, TickStep,
          TimerAction ''1'' Reset, TimerAction ''1'' Start, TickStep]
        [exampleTimer ''1'' ''Egg'' ''Cooking'' 10 1 Running]) ! 0)"
proof -
  have len: "0 < length [exampleTimer ''1'' ''Egg'' ''Cooking'' 10 1 Running]"
    by simp
  have wf: "wellFormed ([exampleTimer ''1'' ''Egg'' ''Cooking'' 10 1 Running] ! 0)"
    by (simp add: wellFormed_def exampleTimer_def)
  show ?thesis
    using wf remainingTime_bounds [OF len wf, of "''1''" Reset "''Cooking''"
        "[TickStep, CategoryAction ''Cooking'' Start, TickStep,
          TimerAction ''1'' Reset, TimerAction ''1'' Start, TickStep]"]
    by blast
qed

text \<open>
  C5. As stated the claim fails: the only test of \<open>handleAddTimer\<close> is that the three
  texts are not empty, so the duration texts \<open>0\<close>, \<open>-5\<close> and \<open>abc\<close> are accepted
  and give timers with the durations 0, -5 and \<open>NaN\<close>.
\<close>

theorem create_accepts_invalid_duration:
  "parseInt10 ''0'' = Num 0
   \<and> fst (handleAddTimer ''1'' (exampleForm ''Tea'' ''0'' ''X'')) = None
   \<and> map duration (timers (snd (handleAddTimer ''1'' (exampleForm ''Tea'' ''0'' ''X'')))) = [Num 0]
   \<and> parseInt10 ''-5'' = Num (- 5)
   \<and> fst (handleAddTimer ''1'' (exampleForm ''Tea'' ''-5'' ''X'')) = None
   \<and> map duration (timers (snd (handleAddTimer ''1'' (exampleForm ''Tea'' ''-5'' ''X'')))) = [Num (- 5)]
   \<and> parseInt10 ''abc'' = NaN
   \<and> fst (handleAddTimer ''1'' (exampleForm ''Tea'' ''abc'' ''X'')) = None
   \<and> map duration (timers (snd (handleAddTimer ''1'' (exampleForm ''Tea'' ''abc'' ''X'')))) = [NaN]"
  by (simp add: handleAddTimer_def exampleForm_def parse_simps)

text \<open>
  C5, amended. Creating a timer fails with the validation error exactly when the name,
  the duration text or the category is empty, and then the state is unchanged; in
  particular an empty name fails whatever the duration text. Every other call adds
  one timer.
\<close>

theorem create_rejects_empty_fields:
  "(fst (handleAddTimer now st) = Some ValidationError) =
      (newName (newTimer st) = [] \<or> newDuration (newTimer st) = [] \<or> newCategory (newTimer st) = [])
   \<and> (fst (handleAddTimer now st) = Some ValidationError \<longrightarrow> snd (handleAddTimer now st) = st)
   \<and> (newName (newTimer st) = [] \<longrightarrow> handleAddTimer now st = (Some ValidationError, st))
   \<and> (fst (handleAddTimer now st) \<noteq> Some ValidationError \<longrightarrow>
        length (timers (snd (handleAddTimer now st))) = Suc (length (timers st)))"
  by (simp add: handleAddTimer_def Let_def)

theorem create_rejects_empty_fields_witness:
  "handleAddTimer ''1'' (exampleForm [] ''30'' ''X'') = (Some ValidationError, exampleForm [] ''30'' ''X'')
   \<and> timers (snd (handleAddTimer ''1'' (exampleForm [] ''30'' ''X''))) = []"
  using create_rejects_empty_fields [of "''1''" "exampleForm [] ''30'' ''X''"]
  by (simp add: exampleForm_def)

text \<open>
  C6. What the code does on a timer that has completed and is started again through
  its category: the start button of the timer itself is disabled, the category's is not;
  the timer runs with remaining time 0 and the next tick sends its completion event a
  second time, the remaining time staying 0.
\<close>

theorem completed_timer_completes_again:
  "run [TimerAction ''1'' Start, TickStep] [exampleTimer ''1'' ''Egg'' ''Cooking'' 1 1 Idle]
     = ([exampleTimer ''1'' ''Egg'' ''Cooking'' 1 0 Completed],
        [CompletionEvent ''1'' ''Egg'' ''Cooking''])
   \<and> startDisabled (exampleTimer ''1'' ''Egg'' ''Cooking'' 1 0 Completed)
   \<and> run [CategoryAction ''Cooking'' Start, TickStep]
        [exampleTimer ''1'' ''Egg'' ''Cooking'' 1 0 Completed]
     = ([exampleTimer ''1'' ''Egg'' ''Cooking'' 1 0 Completed],
        [CompletionEvent ''1'' ''Egg'' ''Cooking''])
   \<and> snd (run [TimerAction ''1'' Start, TickStep, CategoryAction ''Cooking'' Start, TickStep]
        [exampleTimer ''1'' ''Egg'' ''Cooking'' 1 1 Idle])
     = [CompletionEvent ''1'' ''Egg'' ''Cooking'', CompletionEvent ''1'' ''Egg'' ''Cooking'']"
  by (simp add: startDisabled_def handleCategoryAction_def handleTimerAction_def exampleTimer_def
      tick_def tickTimer_def handleTimerComplete_def Let_def)

text \<open>
  C7. What the code does when a pause reaches a timer that is not running: the pause
  button of the timer itself is disabled, but a category pause (and the handler of the
  button, were it called) sets the status of an idle or a completed timer to paused.
\<close>

theorem category_pause_changes_idle_timer:
  "pauseDisabled (exampleTimer ''1'' ''Egg'' ''Cooking'' 10 10 Idle)
   \<and> handleCategoryAction ''Cooking'' Pause [exampleTimer ''1'' ''Egg'' ''Cooking'' 10 10 Idle]
       = [exampleTimer ''1'' ''Egg'' ''Cooking'' 10 10 Paused]
   \<and> handleTimerAction ''1'' Pause [exampleTimer ''1'' ''Egg'' ''Cooking'' 10 10 Idle]
       = [exampleTimer ''1'' ''Egg'' ''Cooking'' 10 10 Paused]
   \<and> handleCategoryAction ''Cooking'' Pause [exampleTimer ''1'' ''Egg'' ''Cooking'' 10 0 Completed]
       = [exampleTimer ''1'' ''Egg'' ''Cooking'' 10 0 Paused]"
  by (simp add: pauseDisabled_def handleCategoryAction_def handleTimerAction_def exampleTimer_def)

text \<open>
  C8. A category action keeps the length of the array; every timer of the category
  becomes what the action table makes of it, every other timer is the same record as
  before; the category has as many members after as before, and after a category start
  all of them are running.
\<close>

theorem category_action_frame:
  "length (handleCategoryAction cat act ts) = length ts
   \<and> (\<forall>i < length ts.
        (category (ts ! i) = cat \<longrightarrow>
           handleCategoryAction cat act ts ! i = actionTable act (ts ! i))
      \<and> (category (ts ! i) \<noteq> cat \<longrightarrow> handleCategoryAction cat act ts ! i = ts ! i))
   \<and> length (filter (\<lambda>t. category t = cat) (handleCategoryAction cat act ts))
        = length (filter (\<lambda>t. category t = cat) ts)
   \<and> (\<forall>t \<in> set (filter (\<lambda>t. category t = cat) (handleCategoryAction cat Start ts)).
        status t = Running)"
proof -
  have frame: "\<forall>i < length ts.
        (category (ts ! i) = cat \<longrightarrow>
           handleCategoryAction cat act ts ! i = actionTable act (ts ! i))
      \<and> (category (ts ! i) \<noteq> cat \<longrightarrow> handleCategoryAction cat act ts ! i = ts ! i)"
    by (simp add: handleCategoryAction_nth)
  have all_started: "\<forall>t \<in> set (filter (\<lambda>t. category t = cat) (handleCategoryAction cat Start ts)).
        status t = Running"
    using started by blast
  show ?thesis
    using length_handleCategoryAction [of cat act ts] frame members_kept [of cat act ts] all_started
    by blast
qed

theorem category_action_frame_witness:
  "handleCategoryAction ''Cooking'' Start
     [exampleTimer ''1'' ''Egg'' ''Cooking'' 10 10 Idle,
      exampleTimer ''2'' ''Maths'' ''Study'' 60 60 Idle,
      exampleTimer ''3'' ''Rice'' ''Cooking'' 20 5 Paused] ! 0
     = exampleTimer ''1'' ''Egg'' ''Cooking'' 10 10 Running
   \<and> handleCategoryAction ''Cooking'' Start
     [exampleTimer ''1'' ''Egg'' ''Cooking'' 10 10 Idle,
      exampleTimer ''2'' ''Maths'' ''Study'' 60 60 Idle,
      exampleTimer ''3'' ''Rice'' ''Cooking'' 20 5 Paused] ! 1
     = exampleTimer ''2'' ''Maths'' ''Study'' 60 60 Idle
   \<and> handleCategoryAction ''Cooking'' Start
     [exampleTimer ''1'' ''Egg'' ''Cooking'' 10 10 Idle,
      exampleTimer ''2'' ''Maths'' ''Study'' 60 60 Idle,
      exampleTimer ''3'' ''Rice'' ''Cooking'' 20 5 Paused] ! 2
     = exampleTimer ''3'' ''Rice'' ''Cooking'' 20 5 Running"
proof -
  let ?ts = "[exampleTimer ''1'' ''Egg'' ''Cooking'' 10 10 Idle,
      exampleTimer ''2'' ''Maths'' ''Study'' 60 60 Idle,
      exampleTimer ''3'' ''Rice'' ''Cooking'' 20 5 Paused]"
  have frame: "\<And>i. i < length ?ts \<Longrightarrow>
        (category (?ts ! i) = ''Cooking'' \<longrightarrow>
           handleCategoryAction ''Cooking'' Start ?ts ! i = actionTable Start (?ts ! i))
      \<and> (category (?ts ! i) \<noteq> ''Cooking'' \<longrightarrow> handleCategoryAction ''Cooking'' Start ?ts ! i = ?ts ! i)"
    using category_action_frame [of "''Cooking''" Start ?ts] by blast
  have e0: "handleCategoryAction ''Cooking'' Start ?ts ! 0 = exampleTimer ''1'' ''Egg'' ''Cooking'' 10 10 Running"
    using frame [of 0] by (simp add: exampleTimer_def)
  have e1: "handleCategoryAction ''Cooking'' Start ?ts ! 1 = exampleTimer ''2'' ''Maths'' ''Study'' 60 60 Idle"
    using frame [of 1] by (simp add: exampleTimer_def)
  have e2: "handleCategoryAction ''Cooking'' Start ?ts ! 2 = exampleTimer ''3'' ''Rice'' ''Cooking'' 20 5 Running"
    using frame [of 2] by (simp add: exampleTimer_def)
  show ?thesis using e0 e1 e2 by blast
qed

text \<open>
  C9. As stated the claim fails in its last part: the object literal of
  \<open>handleAddTimer\<close> has no \<open>halfwayAlertTriggered\<close> key, so the latch of a new timer
  is absent, not \<open>false\<close>.
\<close>

theorem created_latch_not_false:
  "map halfwayAlertTriggered (timers (snd (handleAddTimer ''1'' (exampleForm ''Tea'' ''30'' ''X''))))
     \<noteq> [Some False]"
  by (simp add: handleAddTimer_def exampleForm_def Let_def)

text \<open>
  C9, amended. A timer accepted by \<open>handleAddTimer\<close> is appended to the array with
  status idle, a remaining time equal to its duration (the parsed duration text) and
  the latch absent, which the tick reads as not set.
\<close>

theorem created_timer_initial_state:
  "fst (handleAddTimer now st) = None \<longrightarrow>
     (let t = last (timers (snd (handleAddTimer now st))) in
        timers (snd (handleAddTimer now st)) = timers st @ [t]
      \<and> status t = Idle
      \<and> remainingTime t = duration t
      \<and> duration t = parseInt10 (newDuration (newTimer st))
      \<and> halfwayAlertTriggered t = None
      \<and> \<not> truthy (halfwayAlertTriggered t))"
  by (simp add: handleAddTimer_def Let_def)

theorem created_timer_initial_state_witness:
  "fst (handleAddTimer ''1'' (exampleForm ''Tea'' ''30'' ''X'')) = None
   \<and> status (last (timers (snd (handleAddTimer ''1'' (exampleForm ''Tea'' ''30'' ''X''))))) = Idle
   \<and> remainingTime (last (timers (snd (handleAddTimer ''1'' (exampleForm ''Tea'' ''30'' ''X'')))))
        = Num 30
   \<and> duration (last (timers (snd (handleAddTimer ''1'' (exampleForm ''Tea'' ''30'' ''X'')))))
        = Num 30
   \<and> halfwayAlertTriggered
        (last (timers (snd (handleAddTimer ''1'' (exampleForm ''Tea'' ''30'' ''X''))))) = None"
proof -
  have ok: "fst (handleAddTimer ''1'' (exampleForm ''Tea'' ''30'' ''X'')) = None"
    by (simp add: handleAddTimer_def exampleForm_def Let_def)
  have p: "parseInt10 (newDuration (newTimer (exampleForm ''Tea'' ''30'' ''X''))) = Num 30"
    by (simp add: exampleForm_def parse_simps)
  show ?thesis
    using created_timer_initial_state [of "''1''" "exampleForm ''Tea'' ''30'' ''X''"] ok p
    by (simp only: Let_def)
qed

text \<open>
  C10. Each action is idempotent: applying it twice in a row to the same timer id, or
  to the same category, gives the array that applying it once gives.
\<close>

theorem actions_idempotent:
  "handleTimerAction tid act (handleTimerAction tid act ts) = handleTimerAction tid act ts
   \<and> handleCategoryAction cat act (handleCategoryAction cat act ts) = handleCategoryAction cat act ts"
  by (cases act) (simp_all add: handleTimerAction_def handleCategoryAction_def)

end
